theory Spec2Isabelle
  imports Main "HOL-Library.Word"
begin

text \<open>
  The analysis page of the decision engine: the score badge, the submit handler
  \<open>onAnalyze\<close> with the four state fields it writes, and the rendering of the score
  header, the breakdown card and the radar card.
\<close>

section \<open>JavaScript strings\<close>

text \<open>
  A JavaScript string is a sequence of 16-bit UTF-16 code units. The page's literals
  contain code units beyond ASCII (\<open>0xE3\<close>, \<open>0xE7\<close>, the dash \<open>0x2014\<close>), so strings are
  lists of 16-bit words; \<open>lit\<close> embeds an ASCII literal.
\<close>

type_synonym jsstring = "16 word list"

definition lit :: "string \<Rightarrow> jsstring" where
  "lit s = map (\<lambda>c. of_nat (of_char c)) s"

text \<open>
  \<open>String.prototype.toLowerCase\<close>, by code unit, on the Basic Latin and Latin-1
  Supplement blocks (\<open>A\<close>..\<open>Z\<close> and \<open>0xC0\<close>..\<open>0xDE\<close> without the multiplication sign
  \<open>0xD7\<close>); code units of other blocks are left as they are.
\<close>

definition lower_unit :: "16 word \<Rightarrow> 16 word" where
  "lower_unit c =
     (if 0x41 \<le> c \<and> c \<le> 0x5A then c + 0x20
      else if 0xC0 \<le> c \<and> c \<le> 0xDE \<and> c \<noteq> 0xD7 then c + 0x20
      else c)"

definition toLowerCase :: "jsstring \<Rightarrow> jsstring" where
  "toLowerCase s = map lower_unit s"

text \<open>\<open>String.prototype.startsWith\<close> and \<open>String.prototype.includes\<close> (position 0; named \<open>js_includes\<close> here).\<close>

fun startsWith :: "jsstring \<Rightarrow> jsstring \<Rightarrow> bool" where
  "startsWith s [] = True"
| "startsWith [] (y # ys) = False"
| "startsWith (x # xs) (y # ys) = (x = y \<and> startsWith xs ys)"

fun js_includes :: "jsstring \<Rightarrow> jsstring \<Rightarrow> bool" where
  "js_includes [] t = (t = [])"
| "js_includes (x # xs) t = (startsWith (x # xs) t \<or> js_includes xs t)"

section \<open>Score badge\<close>

text \<open>
  The object \<open>{ text, color }\<close> returned by \<open>badgeByLabel\<close> and \<open>confidenceInfo\<close>. The
  fields are named \<open>badge_text\<close> and \<open>badge_color\<close> here.
\<close>

record badge =
  badge_text :: jsstring
  badge_color :: jsstring

definition str_boa_decisao :: jsstring where
  "str_boa_decisao = lit ''boa decis'' @ [0xE3] @ lit ''o''"

definition str_atencao :: jsstring where
  "str_atencao = lit ''aten'' @ [0xE7, 0xE3] @ lit ''o''"

definition str_neutro :: jsstring where
  "str_neutro = lit ''neutro''"

definition txt_boa_decisao :: jsstring where
  "txt_boa_decisao = lit ''Boa decis'' @ [0xE3] @ lit ''o''"

definition txt_com_atencao :: jsstring where
  "txt_com_atencao = lit ''Boa decis'' @ [0xE3] @ lit ''o, com aten'' @ [0xE7, 0xE3] @ lit ''o''"

definition txt_neutro :: jsstring where
  "txt_neutro = lit ''Neutro (precisa de mais dados)''"

definition txt_nao_recomendado :: jsstring where
  "txt_nao_recomendado = lit ''N'' @ [0xE3] @ lit ''o recomendado''"

definition teal :: jsstring where "teal = lit ''#0f766e''"
definition amber :: jsstring where "amber = lit ''#a16207''"
definition gray :: jsstring where "gray = lit ''#64748b''"
definition red :: jsstring where "red = lit ''#b91c1c''"

text \<open>
  \<open>badgeByLabel(label?: string, fallbackScore?: number)\<close>. An absent argument is
  \<open>None\<close>; \<open>label || ""\<close> turns the absent label into the empty string, and
  \<open>typeof fallbackScore === "number"\<close> is the test for \<open>Some\<close>. Numbers are the
  integers of the response's data model.
\<close>

definition badgeByLabel :: "jsstring option \<Rightarrow> int option \<Rightarrow> badge" where
  "badgeByLabel label fallbackScore =
     (let l = toLowerCase (case label of None \<Rightarrow> [] | Some s \<Rightarrow> s) in
      if js_includes l str_boa_decisao \<and> \<not> js_includes l str_atencao
        then \<lparr>badge_text = txt_boa_decisao, badge_color = teal\<rparr>
      else if js_includes l str_atencao
              \<or> (case fallbackScore of None \<Rightarrow> False | Some n \<Rightarrow> n \<ge> 65)
        then \<lparr>badge_text = txt_com_atencao, badge_color = amber\<rparr>
      else if js_includes l str_neutro
        then \<lparr>badge_text = txt_neutro, badge_color = gray\<rparr>
      else \<lparr>badge_text = txt_nao_recomendado, badge_color = red\<rparr>)"


text \<open>\<open>confidenceInfo(conf?: number)\<close>.\<close>

definition dash :: jsstring where
  "dash = [0x2014]"

definition confidenceInfo :: "int option \<Rightarrow> badge" where
  "confidenceInfo conf =
     (case conf of
        None \<Rightarrow> \<lparr>badge_text = dash, badge_color = gray\<rparr>
      | Some c \<Rightarrow>
          if c \<ge> 75 then \<lparr>badge_text = lit ''Alta'', badge_color = teal\<rparr>
          else if c \<ge> 50 then \<lparr>badge_text = lit ''M'' @ [0xE9] @ lit ''dia'', badge_color = amber\<rparr>
          else \<lparr>badge_text = lit ''Baixa'', badge_color = red\<rparr>)"

section \<open>Trimming and number formatting\<close>

text \<open>
  \<open>String.prototype.trim\<close> removes the ECMAScript white space and line terminator code
  units from both ends.
\<close>

definition is_white_space :: "16 word \<Rightarrow> bool" where
  "is_white_space c =
     (c \<in> {0x09, 0x0A, 0x0B, 0x0C, 0x0D, 0x20, 0xA0, 0x1680, 0x2028, 0x2029,
            0x202F, 0x205F, 0x3000, 0xFEFF}
      \<or> (0x2000 \<le> c \<and> c \<le> 0x200A))"

definition trim :: "jsstring \<Rightarrow> jsstring" where
  "trim s = rev (dropWhile is_white_space (rev (dropWhile is_white_space s)))"

text \<open>
  The decimal digits of a number, as a template literal or a JSX child prints a safe
  integer (magnitude at most \<open>2^53 - 1\<close>): a number holds such an integer exactly and
  \<open>Number::toString\<close> prints it digit by digit. Larger values are rounded and, from
  \<open>10^21\<close> on, printed with an exponent; they are outside this definition.
\<close>

function digits :: "nat \<Rightarrow> jsstring" where
  "digits n = (if n < 10 then [0x30 + of_nat n] else digits (n div 10) @ [0x30 + of_nat (n mod 10)])"
  by pat_completeness auto
termination
  by (relation "measure (\<lambda>n. n)") auto

declare digits.simps [simp del]

definition Number_toString :: "int \<Rightarrow> jsstring" where
  "Number_toString n = (if n < 0 then 0x2D # digits (nat (- n)) else digits (nat n))"

section \<open>The response of the analysis service\<close>

datatype json =
    JNull
  | JBool bool
  | JNum int
  | JStr jsstring
  | JArr "json list"
  | JObj "(jsstring \<times> json) list"

datatype impact = Positive | Monitor | Risk

record radar_item =
  impact :: impact
  title :: jsstring
  date :: "jsstring option"
  why_it_matters :: jsstring
  source :: "jsstring option"

text \<open>
  \<open>input: { query, city }\<close>; the fields are named \<open>input_query\<close> and \<open>input_city\<close>, since
  \<open>query\<close> is also a field of the page state.
\<close>

record input =
  input_query :: jsstring
  input_city :: jsstring

text \<open>
  A \<open>Record<string, number>\<close> is the list of its own properties in the order in which
  they were created (for a parsed JSON object, the order in which the keys first occur).
  \<open>Object.entries\<close> does not enumerate in that order: the keys that are array indices
  (the canonical decimal string of an integer from 0 to \<open>2^32 - 2\<close>) come first, in
  ascending numeric order, and the other keys follow in creation order.
\<close>

definition is_digit :: "16 word \<Rightarrow> bool" where
  "is_digit c = (0x30 \<le> c \<and> c \<le> 0x39)"

definition decimal_value :: "jsstring \<Rightarrow> nat" where
  "decimal_value k = foldl (\<lambda>a c. 10 * a + unat (c - 0x30)) 0 k"

definition array_index :: "jsstring \<Rightarrow> nat option" where
  "array_index k =
     (if k \<noteq> [] \<and> list_all is_digit k \<and> (hd k \<noteq> 0x30 \<or> length k = 1)
         \<and> decimal_value k < 4294967295
      then Some (decimal_value k) else None)"

definition is_index_entry :: "jsstring \<times> 'a \<Rightarrow> bool" where
  "is_index_entry e = (array_index (fst e) \<noteq> None)"

definition entry_index :: "jsstring \<times> 'a \<Rightarrow> nat" where
  "entry_index e = (case array_index (fst e) of Some i \<Rightarrow> i | None \<Rightarrow> 0)"

definition Object_entries :: "(jsstring \<times> 'a) list \<Rightarrow> (jsstring \<times> 'a) list" where
  "Object_entries obj =
     sort_key entry_index (filter is_index_entry obj) @
     filter (\<lambda>e. \<not> is_index_entry e) obj"

record score =
  total :: int
  label :: jsstring
  breakdown :: "(jsstring \<times> int) list"
  place_score :: "int option"
  confidence :: "int option"
  meta :: "(jsstring \<times> json) list option"

record AnalyzeResponse =
  request_id :: jsstring
  input :: input
  score :: score
  summary :: jsstring
  positives :: "jsstring list"
  cautions :: "jsstring list"
  risks :: "jsstring list"
  radar :: "radar_item list"
  generated_at :: jsstring

section \<open>Page state and the submit operation\<close>

record page_state =
  query :: jsstring
  loading :: bool
  data :: "AnalyzeResponse option"
  error :: "jsstring option"

text \<open>
  \<open>badgeInfo\<close>, the memoised badge of the current \<open>data\<close>: absent without data, otherwise
  \<open>badgeByLabel(data.score.label, data.score.total)\<close>.
\<close>

definition badgeInfo :: "AnalyzeResponse option \<Rightarrow> badge option" where
  "badgeInfo dat =
     (case dat of
        None \<Rightarrow> None
      | Some d \<Rightarrow> Some (badgeByLabel (Some (label (score d))) (Some (total (score d)))))"

text \<open>
  The argument of \<open>fetch\<close>: the URL, the method, the \<open>Content-Type\<close> header and the object
  that \<open>JSON.stringify\<close> serialises as the body.
\<close>

record request =
  url :: jsstring
  req_method :: jsstring
  content_type :: jsstring
  body_query :: jsstring
  body_city :: jsstring

text \<open>
  A value caught by \<open>catch (e: any)\<close>, seen through \<open>e?.message\<close>: \<open>None\<close> when \<open>e\<close> is
  nullish or has no message, otherwise the message string.
\<close>

datatype thrown = Thrown (message: "jsstring option")

text \<open>
  What the page reads of a \<open>Response\<close>: \<open>status\<close>, the outcome of \<open>await res.text()\<close> and
  the outcome of \<open>await res.json()\<close> cast to \<open>AnalyzeResponse\<close> (\<open>Inl\<close> is a rejected
  promise). \<open>res.ok\<close> is true for the statuses 200 to 299.
\<close>

record response =
  status :: int
  res_text :: "thrown + jsstring"
  res_json :: "thrown + AnalyzeResponse"

definition ok :: "response \<Rightarrow> bool" where
  "ok res = (200 \<le> status res \<and> status res \<le> 299)"

text \<open>
  The effects of one call of \<open>onAnalyze\<close>, in program order: the calls of the three state
  setters and the call of \<open>fetch\<close>.
\<close>

datatype effect =
    setError "jsstring option"
  | setData "AnalyzeResponse option"
  | setLoading bool
  | fetch request

definition API_BASE :: "jsstring option \<Rightarrow> jsstring" where
  "API_BASE env = (case env of None \<Rightarrow> [] | Some u \<Rightarrow> u)"

definition txt_validation :: jsstring where
  "txt_validation = lit ''Cole um endere'' @ [0xE7] @ lit ''o ou link do an'' @ [0xFA] @ lit ''ncio.''"

definition txt_erro_ao_analisar :: jsstring where
  "txt_erro_ao_analisar = lit ''Erro ao analisar.''"

definition analyze_request :: "jsstring option \<Rightarrow> jsstring \<Rightarrow> request" where
  "analyze_request env q =
     \<lparr>url = API_BASE env @ lit ''/v1/analyze'',
      req_method = lit ''POST'',
      content_type = lit ''application/json'',
      body_query = q,
      body_city = lit ''S'' @ [0xE3] @ lit ''o Paulo''\<rparr>"

text \<open>
  The body of the \<open>try\<close> block after \<open>fetch\<close> has settled: \<open>Inl\<close> is the value that
  reaches \<open>catch\<close>, \<open>Inr\<close> the parsed response that reaches \<open>setData\<close>.
\<close>

definition try_body :: "thrown + response \<Rightarrow> thrown + AnalyzeResponse" where
  "try_body fetched =
     (case fetched of
        Inl e \<Rightarrow> Inl e
      | Inr res \<Rightarrow>
          if \<not> ok res then
            (case res_text res of
               Inl e \<Rightarrow> Inl e
             | Inr t \<Rightarrow>
                 Inl (Thrown (Some (if t = [] then lit ''Erro HTTP '' @ Number_toString (status res)
                                    else t))))
          else
            (case res_json res of
               Inl e \<Rightarrow> Inl e
             | Inr json \<Rightarrow> Inr json))"

text \<open>\<open>e?.message || "Erro ao analisar."\<close>\<close>

definition catch_message :: "thrown \<Rightarrow> jsstring" where
  "catch_message e =
     (case message e of
        None \<Rightarrow> txt_erro_ao_analisar
      | Some m \<Rightarrow> if m = [] then txt_erro_ao_analisar else m)"

text \<open>
  \<open>onAnalyze\<close>, for the configured base URL, the \<open>query\<close> of the render that created the
  handler, and the network \<open>net\<close>, which gives the outcome of the request.
\<close>

definition onAnalyze :: "jsstring option \<Rightarrow> jsstring \<Rightarrow> (request \<Rightarrow> thrown + response) \<Rightarrow> effect list" where
  "onAnalyze env query_now net =
     [setError None, setData None] @
     (let q = trim query_now in
      if q = [] then [setError (Some txt_validation)]
      else
        [setLoading True, fetch (analyze_request env q)] @
        (case try_body (net (analyze_request env q)) of
           Inr json \<Rightarrow> [setData (Some json)]
         | Inl e \<Rightarrow> [setError (Some (catch_message e))]) @
        [setLoading False])"

fun apply_effect :: "effect \<Rightarrow> page_state \<Rightarrow> page_state" where
  "apply_effect (setError e) s = s\<lparr>error := e\<rparr>"
| "apply_effect (setData d) s = s\<lparr>data := d\<rparr>"
| "apply_effect (setLoading b) s = s\<lparr>loading := b\<rparr>"
| "apply_effect (fetch r) s = s"

text \<open>The state after all effects, and the states before, between and after them.\<close>

definition run :: "effect list \<Rightarrow> page_state \<Rightarrow> page_state" where
  "run es s = fold apply_effect es s"

fun states :: "page_state \<Rightarrow> effect list \<Rightarrow> page_state list" where
  "states s [] = [s]"
| "states s (e # es) = s # states (apply_effect e s) es"

text \<open>The state of the page before the first submission (the arguments of \<open>useState\<close>).\<close>

definition initial_state :: page_state where
  "initial_state = \<lparr>query = [], loading = False, data = None, error = None\<rparr>"

text \<open>A response of the service, for concrete runs.\<close>

definition example_response :: AnalyzeResponse where
  "example_response =
     \<lparr>request_id = lit ''r1'',
      input = \<lparr>input_query = lit ''Rua A, 10'', input_city = lit ''S'' @ [0xE3] @ lit ''o Paulo''\<rparr>,
      score = \<lparr>total = 80, label = [], breakdown = [(lit ''price'', 30), (lit ''safety'', 50)],
               place_score = None, confidence = None, meta = None\<rparr>,
      summary = lit ''ok'',
      positives = [lit ''metro''],
      cautions = [],
      risks = [],
      radar = [],
      generated_at = lit ''2025-01-01T00:00:00Z''\<rparr>"


section \<open>Rendering\<close>

text \<open>
  The rendered tree: text nodes and elements with their children. Of the inline styles
  only the computed ones are kept as attributes (the colour of the confidence tier and
  the width of the progress bar); the constant styles are left out.
\<close>

datatype vnode =
    Txt jsstring
  | El string "(string \<times> jsstring) list" "vnode list"

text \<open>A string expression as a JSX child, \<open>{s}\<close>: the empty string renders no node.\<close>

definition jsx_text :: "jsstring \<Rightarrow> vnode list" where
  "jsx_text s = (if s = [] then [] else [Txt s])"

text \<open>The text nodes of a tree, in document order.\<close>

fun texts :: "vnode \<Rightarrow> jsstring list" where
  "texts (Txt s) = [s]"
| "texts (El tag attrs children) = concat (map texts children)"

definition Card :: "jsstring \<Rightarrow> vnode list \<Rightarrow> vnode" where
  "Card card_title children = El ''div'' [] (El ''div'' [] (jsx_text card_title) # children)"

definition SmallList :: "jsstring list \<Rightarrow> vnode" where
  "SmallList items = El ''ul'' [] (map (\<lambda>t. El ''li'' [] (jsx_text t)) items)"

definition ProgressBar :: "int \<Rightarrow> vnode" where
  "ProgressBar val =
     (let v = max 0 (min 100 val) in
      El ''div'' [] [El ''div'' [(''width'', Number_toString v @ lit ''%'')] []])"

text \<open>
  The place score and confidence block of the score header (\<open>placeScore\<close> and \<open>conf\<close> are
  \<open>data?.score?.place_score\<close> and \<open>data?.score?.confidence\<close>).
\<close>

definition number_or_dash :: "int option \<Rightarrow> jsstring" where
  "number_or_dash v = (case v of Some n \<Rightarrow> Number_toString n | None \<Rightarrow> dash)"

definition PlaceScoreStat :: "int option \<Rightarrow> vnode" where
  "PlaceScoreStat placeScore =
     El ''div'' []
       [El ''span'' [] [Txt (lit ''Qualidade do lugar:'')],
        Txt (lit '' ''),
        El ''span'' [] (jsx_text (number_or_dash placeScore)),
        El ''span'' [] [Txt (lit '' / 100'')]]"

definition ConfidenceStat :: "int option \<Rightarrow> vnode" where
  "ConfidenceStat conf =
     (let confMeta = confidenceInfo conf in
      El ''div'' []
        [El ''span'' [] [Txt (lit ''Confian'' @ [0xE7] @ lit ''a:'')],
         Txt (lit '' ''),
         El ''span'' [] (jsx_text (number_or_dash conf)),
         El ''span'' [] [Txt (lit '' / 100'')],
         Txt (lit '' ''),
         El ''span'' [(''color'', badge_color confMeta)]
           ([Txt (lit ''('')] @ jsx_text (badge_text confMeta) @ [Txt (lit '')'')])])"

definition ScoreStats :: "AnalyzeResponse \<Rightarrow> vnode" where
  "ScoreStats d =
     (let conf = confidence (score d); placeScore = place_score (score d) in
      El ''div'' []
        [El ''div'' []
           ([El ''div'' [] [PlaceScoreStat placeScore, ConfidenceStat conf]] @
            (case conf of Some c \<Rightarrow> [ProgressBar c] | None \<Rightarrow> [])),
         El ''div'' [] (jsx_text (summary d))])"

text \<open>The breakdown card.\<close>

definition breakdown_line :: "jsstring \<times> int \<Rightarrow> jsstring" where
  "breakdown_line e = (case e of (k, v) \<Rightarrow> k @ lit '': '' @ Number_toString v @ lit '' pts'')"

definition BreakdownCard :: "AnalyzeResponse \<Rightarrow> vnode" where
  "BreakdownCard d =
     Card (lit ''Breakdown (MVP)'')
       [SmallList (map breakdown_line (Object_entries (breakdown (score d))))]"

text \<open>The radar card. The glyphs are the surrogate pairs of U+1F534, U+1F7E1 and U+1F7E2.\<close>

definition impact_glyph :: "impact \<Rightarrow> jsstring" where
  "impact_glyph i =
     (if i = Risk then [0xD83D, 0xDD34] else if i = Monitor then [0xD83D, 0xDFE1]
      else [0xD83D, 0xDFE2])"

definition RadarItem :: "radar_item \<Rightarrow> vnode" where
  "RadarItem n =
     El ''div'' []
       ([El ''div'' []
           ([El ''div'' [] ([Txt (impact_glyph (impact n)), Txt (lit '' '')] @ jsx_text (title n))] @
            (case date n of
               None \<Rightarrow> []
             | Some d \<Rightarrow> if d = [] then [] else [El ''div'' [] (jsx_text d)])),
         El ''div'' [] (jsx_text (why_it_matters n))] @
        (case source n of
           None \<Rightarrow> []
         | Some src \<Rightarrow>
             if src = [] then [] else [El ''div'' [] ([Txt (lit ''Fonte: '')] @ jsx_text src)]))"

definition txt_nenhum_item :: jsstring where
  "txt_nenhum_item = lit ''Nenhum item relevante encontrado.''"

definition txt_radar_title :: jsstring where
  "txt_radar_title = lit ''Radar do Entorno (not'' @ [0xED] @ lit ''cias e eventos)''"

definition RadarCard :: "AnalyzeResponse \<Rightarrow> vnode" where
  "RadarCard d =
     Card txt_radar_title
       [if length (radar d) = 0 then El ''div'' [] [Txt txt_nenhum_item]
        else El ''div'' [] (map RadarItem (radar d))]"



section \<open>Substring search\<close>

text \<open>\<open>js_includes s t\<close> holds exactly when \<open>t\<close> occurs in \<open>s\<close> as a contiguous run.\<close>

lemma startsWith_iff: "startsWith s t \<longleftrightarrow> (\<exists>u. s = t @ u)"
  by (induction s t rule: startsWith.induct) auto

lemma js_includes_iff: "js_includes s t \<longleftrightarrow> (\<exists>p u. s = p @ t @ u)"
proof (induction s)
  case Nil
  then show ?case by simp
next
  case (Cons x xs)
  show ?case
  proof
    assume "js_includes (x # xs) t"
    then consider "startsWith (x # xs) t" | "js_includes xs t" by auto
    then show "\<exists>p u. x # xs = p @ t @ u"
    proof cases
      case 1
      then obtain u where "x # xs = t @ u" using startsWith_iff by blast
      then have "x # xs = [] @ t @ u" by simp
      then show ?thesis by blast
    next
      case 2
      then obtain p u where "xs = p @ t @ u" using Cons.IH by blast
      then have "x # xs = (x # p) @ t @ u" by simp
      then show ?thesis by blast
    qed
  next
    assume "\<exists>p u. x # xs = p @ t @ u"
    then obtain p u where pu: "x # xs = p @ t @ u" by blast
    show "js_includes (x # xs) t"
    proof (cases p)
      case Nil
      with pu have "startsWith (x # xs) t" using startsWith_iff by auto
      then show ?thesis by simp
    next
      case (Cons y p')
      with pu have "xs = p' @ t @ u" by simp
      then have "js_includes xs t" using Cons.IH by blast
      then show ?thesis by simp
    qed
  qed
qed

section \<open>The score badge\<close>

lemmas lit_simps = lit_def toLowerCase_def lower_unit_def
lemmas badge_strings = str_boa_decisao_def str_atencao_def str_neutro_def
  txt_boa_decisao_def txt_com_atencao_def txt_neutro_def txt_nao_recomendado_def
  teal_def amber_def gray_def red_def

text \<open>
  C1, as stated: an empty label with total 80 would give the teal badge. It does not: the
  first rule needs the label to contain the words, and the second rule takes every total
  of at least 65.
\<close>

theorem badge_empty_label_80_counterexample:
  "badgeByLabel (Some []) (Some 80) \<noteq> \<lparr>badge_text = txt_boa_decisao, badge_color = teal\<rparr>"
  by (simp add: badgeByLabel_def lit_simps badge_strings)

lemma badge_label_com_atencao:
  "badgeByLabel (Some txt_com_atencao) t = \<lparr>badge_text = txt_com_atencao, badge_color = amber\<rparr>"
  by (simp add: badgeByLabel_def lit_simps str_boa_decisao_def str_atencao_def txt_com_atencao_def)

lemma badge_empty_label:
  "badgeByLabel (Some []) (Some n) =
     (if n \<ge> 65 then \<lparr>badge_text = txt_com_atencao, badge_color = amber\<rparr>
      else \<lparr>badge_text = txt_nao_recomendado, badge_color = red\<rparr>)"
  by (simp add: badgeByLabel_def lit_simps str_boa_decisao_def str_atencao_def str_neutro_def)

lemma badge_case_insensitive:
  "toLowerCase l1 = toLowerCase l2 \<Longrightarrow> badgeByLabel (Some l1) t = badgeByLabel (Some l2) t"
  by (simp add: badgeByLabel_def)

lemma badgeInfo_label_total:
  "label (score d1) = label (score d2) \<Longrightarrow> total (score d1) = total (score d2) \<Longrightarrow>
   badgeInfo (Some d1) = badgeInfo (Some d2)"
  by (simp add: badgeInfo_def)

lemma example_label_total:
  "label (score example_response) = []" "total (score example_response) = 80"
  by (simp_all add: example_response_def)

text \<open>
  C1, amended: the badge of a response depends on its label and its total alone. The label
  \<open>txt_com_atencao\<close> gives the amber badge of that name whatever the total;
  the empty label gives the amber badge for a total of at least 65 (so for 80) and the red
  badge below (so for 40); two labels that agree after lower-casing give the same badge.
\<close>

theorem badgeByLabel_cases:
  "badgeByLabel (Some txt_com_atencao) t = \<lparr>badge_text = txt_com_atencao, badge_color = amber\<rparr>
   \<and> badgeByLabel (Some []) (Some 80) = \<lparr>badge_text = txt_com_atencao, badge_color = amber\<rparr>
   \<and> badgeByLabel (Some []) (Some 40) = \<lparr>badge_text = txt_nao_recomendado, badge_color = red\<rparr>
   \<and> badgeByLabel (Some []) (Some n) =
       (if n \<ge> 65 then \<lparr>badge_text = txt_com_atencao, badge_color = amber\<rparr>
        else \<lparr>badge_text = txt_nao_recomendado, badge_color = red\<rparr>)
   \<and> (toLowerCase l1 = toLowerCase l2 \<longrightarrow> badgeByLabel (Some l1) t = badgeByLabel (Some l2) t)
   \<and> (label (score d1) = label (score d2) \<and> total (score d1) = total (score d2) \<longrightarrow>
        badgeInfo (Some d1) = badgeInfo (Some d2))"
proof (intro conjI impI)
  show "badgeByLabel (Some txt_com_atencao) t = \<lparr>badge_text = txt_com_atencao, badge_color = amber\<rparr>"
    by (rule badge_label_com_atencao)
  show "badgeByLabel (Some []) (Some 80) = \<lparr>badge_text = txt_com_atencao, badge_color = amber\<rparr>"
    by (simp add: badge_empty_label)
  show "badgeByLabel (Some []) (Some 40) = \<lparr>badge_text = txt_nao_recomendado, badge_color = red\<rparr>"
    by (simp add: badge_empty_label)
  show "badgeByLabel (Some []) (Some n) =
       (if n \<ge> 65 then \<lparr>badge_text = txt_com_atencao, badge_color = amber\<rparr>
        else \<lparr>badge_text = txt_nao_recomendado, badge_color = red\<rparr>)"
    by (rule badge_empty_label)
  show "badgeByLabel (Some l1) t = badgeByLabel (Some l2) t" if "toLowerCase l1 = toLowerCase l2"
    using that by (rule badge_case_insensitive)
  show "badgeInfo (Some d1) = badgeInfo (Some d2)"
    if "label (score d1) = label (score d2) \<and> total (score d1) = total (score d2)"
    using that badgeInfo_label_total by blast
qed

theorem badgeByLabel_cases_witness:
  "toLowerCase (lit ''NEUTRO'') = toLowerCase (lit ''neutro'')
   \<and> badgeByLabel (Some (lit ''NEUTRO'')) (Some 10) = \<lparr>badge_text = txt_neutro, badge_color = gray\<rparr>
   \<and> label (score (example_response\<lparr>summary := []\<rparr>)) = label (score example_response)
   \<and> total (score (example_response\<lparr>summary := []\<rparr>)) = total (score example_response)
   \<and> badgeInfo (Some (example_response\<lparr>summary := []\<rparr>)) =
       Some \<lparr>badge_text = txt_com_atencao, badge_color = amber\<rparr>"
proof -
  let ?d = "example_response\<lparr>summary := []\<rparr>"
  have h: "toLowerCase (lit ''NEUTRO'') = toLowerCase (lit ''neutro'')"
    by (simp add: lit_simps)
  have g: "label (score ?d) = label (score example_response)
           \<and> total (score ?d) = total (score example_response)"
    by simp
  have n: "badgeByLabel (Some (lit ''neutro'')) (Some 10) = \<lparr>badge_text = txt_neutro, badge_color = gray\<rparr>"
    by (simp add: badgeByLabel_def lit_simps str_boa_decisao_def str_atencao_def str_neutro_def)
  have e: "badgeInfo (Some example_response) = Some \<lparr>badge_text = txt_com_atencao, badge_color = amber\<rparr>"
    by (simp add: badgeInfo_def example_label_total badge_empty_label)
  note c = badgeByLabel_cases [of "Some 10" 10 "lit ''NEUTRO''" "lit ''neutro''" ?d example_response]
  from c h have "badgeByLabel (Some (lit ''NEUTRO'')) (Some 10) = badgeByLabel (Some (lit ''neutro'')) (Some 10)"
    by blast
  then have 1: "badgeByLabel (Some (lit ''NEUTRO'')) (Some 10) = \<lparr>badge_text = txt_neutro, badge_color = gray\<rparr>"
    using n by (rule trans)
  from c g have "badgeInfo (Some ?d) = badgeInfo (Some example_response)"
    by blast
  then have 2: "badgeInfo (Some ?d) = Some \<lparr>badge_text = txt_com_atencao, badge_color = amber\<rparr>"
    using e by (rule trans)
  from h 1 g 2 show ?thesis
    by blast
qed

section \<open>The submit operation\<close>

lemma trim_empty_iff: "trim s = [] \<longleftrightarrow> (\<forall>c \<in> set s. is_white_space c)"
proof
  assume "trim s = []"
  then have "dropWhile is_white_space (rev (dropWhile is_white_space s)) = []"
    by (simp add: trim_def)
  then have all: "\<forall>c \<in> set (dropWhile is_white_space s). is_white_space c"
    by (simp add: dropWhile_eq_Nil_conv)
  have "dropWhile is_white_space s = []"
  proof (rule ccontr)
    assume ne: "dropWhile is_white_space s \<noteq> []"
    then have "\<not> is_white_space (hd (dropWhile is_white_space s))"
      by (rule hd_dropWhile)
    moreover from ne have "hd (dropWhile is_white_space s) \<in> set (dropWhile is_white_space s)"
      by simp
    ultimately show False using all by blast
  qed
  then show "\<forall>c \<in> set s. is_white_space c"
    by (simp add: dropWhile_eq_Nil_conv)
next
  assume "\<forall>c \<in> set s. is_white_space c"
  then have d: "dropWhile is_white_space s = []"
    by (simp add: dropWhile_eq_Nil_conv)
  show "trim s = []"
    unfolding trim_def d by simp
qed

lemma onAnalyze_invalid:
  "trim q = [] \<Longrightarrow>
   onAnalyze env q net = [setError None, setData None, setError (Some txt_validation)]"
  by (simp add: onAnalyze_def)

lemma onAnalyze_valid:
  "trim q \<noteq> [] \<Longrightarrow>
   onAnalyze env q net =
     [setError None, setData None, setLoading True, fetch (analyze_request env (trim q)),
      (case try_body (net (analyze_request env (trim q))) of
         Inr json \<Rightarrow> setData (Some json)
       | Inl e \<Rightarrow> setError (Some (catch_message e))),
      setLoading False]"
  by (simp add: onAnalyze_def split: sum.splits)

lemma txt_validation_nonempty: "txt_validation \<noteq> []"
  by (simp add: txt_validation_def lit_def)

lemma txt_erro_ao_analisar_nonempty: "txt_erro_ao_analisar \<noteq> []"
  by (simp add: txt_erro_ao_analisar_def lit_def)

lemma catch_message_nonempty: "catch_message e \<noteq> []"
  by (simp add: catch_message_def txt_erro_ao_analisar_nonempty split: option.splits)

lemma try_body_non_2xx:
  "\<not> ok res \<Longrightarrow> res_text res = Inr t \<Longrightarrow>
   try_body (Inr res) =
     Inl (Thrown (Some (if t = [] then lit ''Erro HTTP '' @ Number_toString (status res) else t)))"
  by (simp add: try_body_def)

lemma try_body_2xx:
  "ok res \<Longrightarrow> res_json res = Inr r \<Longrightarrow> try_body (Inr res) = Inr r"
  by (simp add: try_body_def)

lemma js_includes_suffix: "js_includes (a @ b) b"
proof -
  have "a @ b = a @ b @ []" by simp
  then show ?thesis unfolding js_includes_iff by blast
qed

text \<open>
  C2: when the trimmed query is empty, \<open>onAnalyze\<close> never calls \<open>fetch\<close>, and it leaves
  \<open>error\<close> at the fixed validation message. (By \<open>trim_empty_iff\<close> these are the queries
  made of white space only.)
\<close>

theorem empty_query_no_network_call:
  assumes "trim q = []"
  shows "(\<forall>r. fetch r \<notin> set (onAnalyze env q net))
         \<and> error (run (onAnalyze env q net) s) = Some txt_validation"
  using assms by (simp add: onAnalyze_invalid run_def)

theorem empty_query_no_network_call_witness:
  "trim (lit ''  '' @ [0x09, 0xA0]) = []
   \<and> (\<forall>r. fetch r \<notin> set (onAnalyze None (lit ''  '' @ [0x09, 0xA0]) (\<lambda>r. Inl (Thrown None))))
   \<and> error (run (onAnalyze None (lit ''  '' @ [0x09, 0xA0]) (\<lambda>r. Inl (Thrown None))) initial_state)
       = Some txt_validation"
proof -
  have h: "trim (lit ''  '' @ [0x09, 0xA0]) = []"
    by (simp add: trim_def lit_def is_white_space_def)
  from h empty_query_no_network_call [OF h, of None "\<lambda>r. Inl (Thrown None)" initial_state]
  show ?thesis by simp
qed

text \<open>
  C3: when the query passes validation, the response has a status outside 200 to 299 and
  its body has been read as the text \<open>t\<close>, \<open>error\<close> ends as \<open>t\<close> itself if \<open>t\<close> is not
  empty, and otherwise as "Erro HTTP " followed by the status, a string that contains the
  digits of the status; \<open>data\<close> ends absent.
\<close>

theorem non_2xx_error_message:
  assumes "trim q \<noteq> []"
    and "net (analyze_request env (trim q)) = Inr res"
    and "\<not> ok res"
    and "res_text res = Inr t"
  shows "error (run (onAnalyze env q net) s) =
           Some (if t = [] then lit ''Erro HTTP '' @ Number_toString (status res) else t)
         \<and> js_includes (lit ''Erro HTTP '' @ Number_toString (status res))
                        (Number_toString (status res))
         \<and> data (run (onAnalyze env q net) s) = None"
proof -
  have tb: "try_body (net (analyze_request env (trim q))) =
      Inl (Thrown (Some (if t = [] then lit ''Erro HTTP '' @ Number_toString (status res) else t)))"
    using assms by (simp add: try_body_non_2xx)
  have "lit ''Erro HTTP '' \<noteq> []"
    by (simp add: lit_def)
  then have ne: "lit ''Erro HTTP '' @ Number_toString (status res) \<noteq> []"
    by blast
  from assms(1) tb ne have
    "error (run (onAnalyze env q net) s) =
       Some (if t = [] then lit ''Erro HTTP '' @ Number_toString (status res) else t)"
    by (simp add: onAnalyze_valid run_def catch_message_def del: append_is_Nil_conv)
  moreover from assms(1) tb have "data (run (onAnalyze env q net) s) = None"
    by (simp add: onAnalyze_valid run_def)
  ultimately show ?thesis
    using js_includes_suffix by blast
qed

text \<open>
  C4: when the query passes validation, the response has a status from 200 to 299 and its
  body parses to the response \<open>r\<close>, \<open>data\<close> ends as exactly \<open>r\<close> and \<open>error\<close> ends absent.
\<close>

theorem success_stores_response:
  assumes "trim q \<noteq> []"
    and "net (analyze_request env (trim q)) = Inr res"
    and "ok res"
    and "res_json res = Inr r"
  shows "data (run (onAnalyze env q net) s) = Some r
         \<and> error (run (onAnalyze env q net) s) = None"
proof -
  have "try_body (net (analyze_request env (trim q))) = Inr r"
    using assms by (simp add: try_body_2xx)
  with assms(1) show ?thesis
    by (simp add: onAnalyze_valid run_def)
qed

text \<open>
  C5: a submission that passes validation performs six effects: the two clearing calls,
  \<open>setLoading(true)\<close>, the \<open>fetch\<close>, one call that stores the result or the error, and
  \<open>setLoading(false)\<close> last. So \<open>loading\<close> keeps its earlier value up to the validation,
  is true from \<open>setLoading(true)\<close> until the outcome is stored, and is false at the end, on
  the success path and on the error path alike. A submission that fails validation never
  calls \<open>setLoading\<close>, and \<open>loading\<close> keeps its value throughout.
\<close>

theorem loading_interval:
  "(trim q \<noteq> [] \<longrightarrow>
      (\<exists>x. onAnalyze env q net =
             [setError None, setData None, setLoading True,
              fetch (analyze_request env (trim q)), x, setLoading False]
           \<and> ((\<exists>json. x = setData (Some json)) \<or> (\<exists>m. x = setError (Some m))))
      \<and> map loading (states s (onAnalyze env q net)) =
          [loading s, loading s, loading s, True, True, True, False])
   \<and> (trim q = [] \<longrightarrow>
      (\<forall>b. setLoading b \<notin> set (onAnalyze env q net))
      \<and> map loading (states s (onAnalyze env q net)) =
          [loading s, loading s, loading s, loading s])"
proof (intro conjI impI)
  assume v: "trim q \<noteq> []"
  let ?x = "case try_body (net (analyze_request env (trim q))) of
              Inr json \<Rightarrow> setData (Some json)
            | Inl e \<Rightarrow> setError (Some (catch_message e))"
  have shape: "(\<exists>json. ?x = setData (Some json)) \<or> (\<exists>m. ?x = setError (Some m))"
    by (cases "try_body (net (analyze_request env (trim q)))") simp_all
  with v show "\<exists>x. onAnalyze env q net =
             [setError None, setData None, setLoading True,
              fetch (analyze_request env (trim q)), x, setLoading False]
           \<and> ((\<exists>json. x = setData (Some json)) \<or> (\<exists>m. x = setError (Some m)))"
    using onAnalyze_valid by blast
  from shape have "loading (apply_effect ?x st) = loading st" for st
    by auto
  with v show "map loading (states s (onAnalyze env q net)) =
          [loading s, loading s, loading s, True, True, True, False]"
    by (simp add: onAnalyze_valid)
next
  assume i: "trim q = []"
  then show "\<forall>b. setLoading b \<notin> set (onAnalyze env q net)"
    by (simp add: onAnalyze_invalid)
  from i show "map loading (states s (onAnalyze env q net)) =
          [loading s, loading s, loading s, loading s]"
    by (simp add: onAnalyze_invalid)
qed


lemma trim_rua: "trim (lit ''Rua A'') \<noteq> []"
  by (simp add: trim_def lit_def is_white_space_def)

lemma trim_blank: "trim (lit '' '') = []"
  by (simp add: trim_def lit_def is_white_space_def)

theorem non_2xx_error_message_witness:
  "error (run (onAnalyze None (lit ''Rua A'')
                 (\<lambda>r. Inr \<lparr>status = 500, res_text = Inr [], res_json = Inl (Thrown None)\<rparr>))
            initial_state) = Some (lit ''Erro HTTP 500'')
   \<and> js_includes (lit ''Erro HTTP 500'') (lit ''500'')
   \<and> error (run (onAnalyze None (lit ''Rua A'')
                 (\<lambda>r. Inr \<lparr>status = 400, res_text = Inr (lit ''Bad city''),
                            res_json = Inl (Thrown None)\<rparr>))
            initial_state) = Some (lit ''Bad city'')"
proof -
  let ?r500 = "\<lparr>status = 500, res_text = Inr [], res_json = Inl (Thrown None)\<rparr>"
  let ?r400 = "\<lparr>status = 400, res_text = Inr (lit ''Bad city''), res_json = Inl (Thrown None)\<rparr>"
  have n500: "Number_toString 500 = lit ''500''"
    by (simp add: Number_toString_def digits.simps lit_def)
  have bad: "lit ''Bad city'' \<noteq> []"
    by (simp add: lit_def)
  have a: "\<not> ok ?r500" and b: "\<not> ok ?r400"
    by (simp_all add: ok_def)
  have e500: "lit ''Erro HTTP '' @ lit ''500'' = lit ''Erro HTTP 500''"
    by (simp add: lit_def)
  from non_2xx_error_message [OF trim_rua, of "\<lambda>r. Inr ?r500" None ?r500 "[]" initial_state] a
  have "error (run (onAnalyze None (lit ''Rua A'') (\<lambda>r. Inr ?r500)) initial_state)
          = Some (lit ''Erro HTTP 500'')
        \<and> js_includes (lit ''Erro HTTP 500'') (lit ''500'')"
    by (simp add: n500 e500)
  moreover
  from non_2xx_error_message [OF trim_rua, of "\<lambda>r. Inr ?r400" None ?r400 "lit ''Bad city''" initial_state] b bad
  have "error (run (onAnalyze None (lit ''Rua A'') (\<lambda>r. Inr ?r400)) initial_state)
          = Some (lit ''Bad city'')"
    by simp
  ultimately show ?thesis by blast
qed

theorem success_stores_response_witness:
  "trim (lit ''Rua A'') \<noteq> []
   \<and> ok \<lparr>status = 200, res_text = Inr [], res_json = Inr example_response\<rparr>
   \<and> data (run (onAnalyze None (lit ''Rua A'')
                 (\<lambda>r. Inr \<lparr>status = 200, res_text = Inr [], res_json = Inr example_response\<rparr>))
            initial_state) = Some example_response
   \<and> error (run (onAnalyze None (lit ''Rua A'')
                 (\<lambda>r. Inr \<lparr>status = 200, res_text = Inr [], res_json = Inr example_response\<rparr>))
            initial_state) = None"
proof -
  let ?res = "\<lparr>status = 200, res_text = Inr [], res_json = Inr example_response\<rparr>"
  have a: "ok ?res"
    by (simp add: ok_def)
  from success_stores_response [OF trim_rua, of "\<lambda>r. Inr ?res" None ?res example_response initial_state] a trim_rua
  show ?thesis by simp
qed

theorem loading_interval_witness:
  "trim (lit ''Rua A'') \<noteq> []
   \<and> map loading (states initial_state (onAnalyze None (lit ''Rua A'') (\<lambda>r. Inl (Thrown None))))
       = [False, False, False, True, True, True, False]
   \<and> trim (lit '' '') = []
   \<and> map loading (states initial_state (onAnalyze None (lit '' '') (\<lambda>r. Inl (Thrown None))))
       = [False, False, False, False]"
proof -
  have l: "loading initial_state = False"
    by (simp add: initial_state_def)
  from loading_interval [of "lit ''Rua A''" None "\<lambda>r. Inl (Thrown None)" initial_state] trim_rua l
  have "map loading (states initial_state (onAnalyze None (lit ''Rua A'') (\<lambda>r. Inl (Thrown None))))
       = [False, False, False, True, True, True, False]"
    by simp
  moreover
  from loading_interval [of "lit '' ''" None "\<lambda>r. Inl (Thrown None)" initial_state] trim_blank l
  have "map loading (states initial_state (onAnalyze None (lit '' '') (\<lambda>r. Inl (Thrown None))))
       = [False, False, False, False]"
    by simp
  ultimately show ?thesis
    using trim_rua trim_blank by blast
qed

text \<open>
  C9: \<open>onAnalyze\<close> starts with \<open>setError(null)\<close> and \<open>setData(null)\<close>, before the query is
  looked at. When the trimmed query is empty, the state after these two calls has neither
  data nor error, and the final state has no data, the validation message as error, and
  the value of \<open>loading\<close> it had before (false, when no request is in flight).
\<close>

theorem failed_validation_clears_previous_result:
  assumes "trim q = []"
  shows "take 2 (onAnalyze env q net) = [setError None, setData None]
         \<and> states s (onAnalyze env q net) ! 2 = s\<lparr>error := None, data := None\<rparr>
         \<and> data (run (onAnalyze env q net) s) = None
         \<and> error (run (onAnalyze env q net) s) = Some txt_validation
         \<and> loading (run (onAnalyze env q net) s) = loading s"
  using assms by (simp add: onAnalyze_invalid run_def)

theorem failed_validation_clears_previous_result_witness:
  "trim (lit '' '') = []
   \<and> data (run (onAnalyze None (lit '' '') (\<lambda>r. Inl (Thrown None)))
            \<lparr>query = lit '' '', loading = False, data = Some example_response,
             error = Some (lit ''old'')\<rparr>) = None
   \<and> error (run (onAnalyze None (lit '' '') (\<lambda>r. Inl (Thrown None)))
            \<lparr>query = lit '' '', loading = False, data = Some example_response,
             error = Some (lit ''old'')\<rparr>) = Some txt_validation
   \<and> loading (run (onAnalyze None (lit '' '') (\<lambda>r. Inl (Thrown None)))
            \<lparr>query = lit '' '', loading = False, data = Some example_response,
             error = Some (lit ''old'')\<rparr>) = False"
proof -
  let ?s = "\<lparr>query = lit '' '', loading = False, data = Some example_response,
             error = Some (lit ''old'')\<rparr>"
  from failed_validation_clears_previous_result [OF trim_blank, of None "\<lambda>r. Inl (Thrown None)" ?s]
    trim_blank
  show ?thesis by simp
qed

text \<open>
  C10: after any call of \<open>onAnalyze\<close>, \<open>error\<close> is never the empty string. The validation
  message is not empty; a response outside 200 to 299 with an empty body throws
  "Erro HTTP " followed by the status; a caught value without a message, or with the empty
  message, gives the fallback "Erro ao analisar.", which is not empty.
\<close>

theorem error_never_empty:
  "error (run (onAnalyze env q net) s) \<noteq> Some []
   \<and> txt_validation \<noteq> []
   \<and> (\<not> ok res \<and> res_text res = Inr [] \<longrightarrow>
        try_body (Inr res) = Inl (Thrown (Some (lit ''Erro HTTP '' @ Number_toString (status res)))))
   \<and> (message e = None \<or> message e = Some [] \<longrightarrow> catch_message e = txt_erro_ao_analisar)
   \<and> txt_erro_ao_analisar \<noteq> []"
proof (intro conjI impI)
  show "error (run (onAnalyze env q net) s) \<noteq> Some []"
  proof (cases "trim q = []")
    case True
    then show ?thesis
      by (simp add: onAnalyze_invalid run_def txt_validation_nonempty)
  next
    case False
    show ?thesis
    proof (cases "try_body (net (analyze_request env (trim q)))")
      case (Inl e')
      with False show ?thesis
        using catch_message_nonempty [of e'] by (simp add: onAnalyze_valid run_def)
    next
      case (Inr json)
      with False show ?thesis
        by (simp add: onAnalyze_valid run_def)
    qed
  qed
  show "txt_validation \<noteq> []"
    by (rule txt_validation_nonempty)
  show "try_body (Inr res) = Inl (Thrown (Some (lit ''Erro HTTP '' @ Number_toString (status res))))"
    if "\<not> ok res \<and> res_text res = Inr []"
    using that by (simp add: try_body_non_2xx)
  show "catch_message e = txt_erro_ao_analisar" if "message e = None \<or> message e = Some []"
    using that by (auto simp: catch_message_def)
  show "txt_erro_ao_analisar \<noteq> []"
    by (rule txt_erro_ao_analisar_nonempty)
qed

theorem error_never_empty_witness:
  "message (Thrown (Some [])) = Some []
   \<and> catch_message (Thrown (Some [])) = txt_erro_ao_analisar
   \<and> error (run (onAnalyze None (lit ''Rua A'') (\<lambda>r. Inl (Thrown (Some [])))) initial_state)
       = Some txt_erro_ao_analisar
   \<and> error (run (onAnalyze None (lit ''Rua A'') (\<lambda>r. Inl (Thrown (Some [])))) initial_state)
       \<noteq> Some []
   \<and> try_body (Inr \<lparr>status = 500, res_text = Inr [], res_json = Inl (Thrown None)\<rparr>)
       = Inl (Thrown (Some (lit ''Erro HTTP 500'')))"
proof -
  let ?net = "\<lambda>r::request. (Inl (Thrown (Some [])) :: thrown + response)"
  let ?res = "\<lparr>status = 500, res_text = Inr [], res_json = Inl (Thrown None)\<rparr>"
  have n500: "lit ''Erro HTTP '' @ Number_toString 500 = lit ''Erro HTTP 500''"
    by (simp add: Number_toString_def digits.simps lit_def)
  have a: "\<not> ok ?res"
    by (simp add: ok_def)
  have r: "error (run (onAnalyze None (lit ''Rua A'') ?net) initial_state) = Some txt_erro_ao_analisar"
    using trim_rua by (simp add: onAnalyze_valid run_def try_body_def catch_message_def)
  from error_never_empty [of None "lit ''Rua A''" ?net initial_state ?res "Thrown (Some [])"] a r n500
  show ?thesis by simp
qed




section \<open>Rendering of the result\<close>

lemma breakdown_line_nonempty: "breakdown_line e \<noteq> []"
proof -
  have "lit '': '' \<noteq> []" by (simp add: lit_def)
  then show ?thesis by (cases e) (simp add: breakdown_line_def)
qed

lemma texts_Card: "t \<noteq> [] \<Longrightarrow> texts (Card t cs) = t # concat (map texts cs)"
  by (simp add: Card_def jsx_text_def)

lemma SmallList_nonempty_items:
  "\<forall>t \<in> set items. t \<noteq> [] \<Longrightarrow> SmallList items = El ''ul'' [] (map (\<lambda>t. El ''li'' [] [Txt t]) items)"
  by (simp add: SmallList_def jsx_text_def)

lemma texts_items: "concat (map texts (map (\<lambda>t. El ''li'' [] [Txt t]) items)) = items"
  by (induction items) simp_all

lemma BreakdownCard_tree:
  "BreakdownCard d =
     Card (lit ''Breakdown (MVP)'')
       [El ''ul'' []
          (map (\<lambda>(k, v). El ''li'' [] [Txt (k @ lit '': '' @ Number_toString v @ lit '' pts'')])
               (Object_entries (breakdown (score d))))]"
proof -
  let ?b = "Object_entries (breakdown (score d))"
  have all: "\<forall>t \<in> set (map breakdown_line ?b). t \<noteq> []"
    using breakdown_line_nonempty by auto
  have line: "breakdown_line = (\<lambda>(k, v). k @ lit '': '' @ Number_toString v @ lit '' pts'')"
    by (rule ext) (simp add: breakdown_line_def)
  have sl: "SmallList (map breakdown_line ?b) =
      El ''ul'' [] (map (\<lambda>t. El ''li'' [] [Txt t]) (map breakdown_line ?b))"
    using all by (rule SmallList_nonempty_items)
  show ?thesis
    unfolding BreakdownCard_def sl by (simp add: line case_prod_unfold comp_def)
qed

lemma texts_BreakdownCard:
  "texts (BreakdownCard d) =
     lit ''Breakdown (MVP)'' # map breakdown_line (Object_entries (breakdown (score d)))"
proof -
  let ?b = "Object_entries (breakdown (score d))"
  have all: "\<forall>t \<in> set (map breakdown_line ?b). t \<noteq> []"
    using breakdown_line_nonempty by auto
  have sl: "SmallList (map breakdown_line ?b) =
      El ''ul'' [] (map (\<lambda>t. El ''li'' [] [Txt t]) (map breakdown_line ?b))"
    using all by (rule SmallList_nonempty_items)
  have ne: "lit ''Breakdown (MVP)'' \<noteq> []"
    by (simp add: lit_def)
  show ?thesis
    unfolding BreakdownCard_def sl by (simp add: texts_Card [OF ne] texts_items del: map_map)
qed

lemma Object_entries_length: "length (Object_entries b) = length b"
  by (simp add: Object_entries_def sum_length_filter_compl)

lemma Object_entries_set: "set (Object_entries b) = set b"
  by (auto simp: Object_entries_def)

lemma Object_entries_index_run:
  "takeWhile is_index_entry (Object_entries b) = sort_key entry_index (filter is_index_entry b)"
proof -
  let ?idx = "sort_key entry_index (filter is_index_entry b)"
  let ?rest = "filter (\<lambda>e. \<not> is_index_entry e) b"
  have idx: "is_index_entry x" if "x \<in> set ?idx" for x
    using that by simp
  have nil: "takeWhile is_index_entry ?rest = []"
    by (induction b) simp_all
  have "takeWhile is_index_entry (?idx @ ?rest) = ?idx @ takeWhile is_index_entry ?rest"
    using idx by (rule takeWhile_append2)
  also have "\<dots> = ?idx"
    unfolding nil by simp
  finally show ?thesis
    unfolding Object_entries_def .
qed

lemma Object_entries_rest:
  "dropWhile is_index_entry (Object_entries b) = filter (\<lambda>e. \<not> is_index_entry e) b"
proof -
  let ?idx = "sort_key entry_index (filter is_index_entry b)"
  let ?rest = "filter (\<lambda>e. \<not> is_index_entry e) b"
  have idx: "is_index_entry x" if "x \<in> set ?idx" for x
    using that by simp
  have same: "dropWhile is_index_entry ?rest = ?rest"
    by (induction b) simp_all
  have "dropWhile is_index_entry (?idx @ ?rest) = dropWhile is_index_entry ?rest"
    using idx by (rule dropWhile_append2)
  then show ?thesis
    unfolding Object_entries_def same .
qed

lemma Object_entries_no_index:
  "\<forall>e \<in> set b. array_index (fst e) = None \<Longrightarrow> Object_entries b = b"
  by (simp add: Object_entries_def is_index_entry_def)

lemma example_breakdown:
  "breakdown (score example_response) = [(lit ''price'', 30), (lit ''safety'', 50)]"
  by (simp add: example_response_def)

lemma array_index_examples:
  "array_index (lit ''b'') = None" "array_index (lit ''price'') = None"
  "array_index (lit ''safety'') = None" "array_index (lit ''2'') = Some 2"
  "array_index (lit ''10'') = Some 10"
  by (simp_all add: array_index_def is_digit_def decimal_value_def lit_def)

lemma breakdown_line_examples:
  "breakdown_line (lit ''b'', 1) = lit ''b: 1 pts''"
  "breakdown_line (lit ''2'', 5) = lit ''2: 5 pts''"
  "breakdown_line (lit ''10'', 7) = lit ''10: 7 pts''"
  "breakdown_line (lit ''price'', 30) = lit ''price: 30 pts''"
  "breakdown_line (lit ''safety'', 50) = lit ''safety: 50 pts''"
  by (simp_all add: breakdown_line_def Number_toString_def digits.simps lit_def)

text \<open>
  C7, as stated: the entries would be shown in insertion order. A breakdown created with
  the key "b" before the key "2" is shown with "2" first.
\<close>

theorem breakdown_insertion_order_counterexample:
  "texts (BreakdownCard
            (example_response\<lparr>score := (score example_response)
               \<lparr>breakdown := [(lit ''b'', 1), (lit ''2'', 5)]\<rparr>\<rparr>))
     = [lit ''Breakdown (MVP)'', lit ''2: 5 pts'', lit ''b: 1 pts'']
   \<and> texts (BreakdownCard
            (example_response\<lparr>score := (score example_response)
               \<lparr>breakdown := [(lit ''b'', 1), (lit ''2'', 5)]\<rparr>\<rparr>))
     \<noteq> [lit ''Breakdown (MVP)'', lit ''b: 1 pts'', lit ''2: 5 pts'']"
proof -
  have oe: "Object_entries [(lit ''b'', 1::int), (lit ''2'', 5)] = [(lit ''2'', 5), (lit ''b'', 1)]"
    by (simp add: Object_entries_def is_index_entry_def array_index_examples)
  have ne: "lit ''2: 5 pts'' \<noteq> lit ''b: 1 pts''"
    by (simp add: lit_def)
  show ?thesis
    by (simp add: texts_BreakdownCard oe breakdown_line_examples ne)
qed

text \<open>
  C7, amended: for a breakdown whose values are safe integers, the breakdown card holds
  one list item per entry, in the order in which \<open>Object.entries\<close> enumerates the mapping,
  and the text of each item is the key, ": ", the value and " pts". That order keeps every
  entry, lists the array-index keys first in ascending numeric order and then the other
  keys in insertion order; it is the insertion order when no key is an array index.
\<close>

theorem breakdown_in_order:
  assumes "\<forall>e \<in> set (breakdown (score d)). \<bar>snd e\<bar> \<le> 9007199254740991"
  shows "BreakdownCard d =
     Card (lit ''Breakdown (MVP)'')
       [El ''ul'' []
          (map (\<lambda>(k, v). El ''li'' [] [Txt (k @ lit '': '' @ Number_toString v @ lit '' pts'')])
               (Object_entries (breakdown (score d))))]
   \<and> texts (BreakdownCard d) =
       lit ''Breakdown (MVP)'' #
       map (\<lambda>(k, v). k @ lit '': '' @ Number_toString v @ lit '' pts'')
           (Object_entries (breakdown (score d)))
   \<and> length (Object_entries (breakdown (score d))) = length (breakdown (score d))
   \<and> set (Object_entries (breakdown (score d))) = set (breakdown (score d))
   \<and> sorted (map entry_index (takeWhile is_index_entry (Object_entries (breakdown (score d)))))
   \<and> dropWhile is_index_entry (Object_entries (breakdown (score d)))
       = filter (\<lambda>e. \<not> is_index_entry e) (breakdown (score d))
   \<and> ((\<forall>e \<in> set (breakdown (score d)). array_index (fst e) = None) \<longrightarrow>
        Object_entries (breakdown (score d)) = breakdown (score d))"
proof (intro conjI impI)
  let ?b = "breakdown (score d)"
  have line: "breakdown_line = (\<lambda>(k, v). k @ lit '': '' @ Number_toString v @ lit '' pts'')"
    by (rule ext) (simp add: breakdown_line_def)
  show "BreakdownCard d =
     Card (lit ''Breakdown (MVP)'')
       [El ''ul'' []
          (map (\<lambda>(k, v). El ''li'' [] [Txt (k @ lit '': '' @ Number_toString v @ lit '' pts'')])
               (Object_entries ?b))]"
    by (rule BreakdownCard_tree)
  show "texts (BreakdownCard d) =
       lit ''Breakdown (MVP)'' #
       map (\<lambda>(k, v). k @ lit '': '' @ Number_toString v @ lit '' pts'') (Object_entries ?b)"
    unfolding texts_BreakdownCard line by (rule refl)
  show "length (Object_entries ?b) = length ?b"
    by (rule Object_entries_length)
  show "set (Object_entries ?b) = set ?b"
    by (rule Object_entries_set)
  show "sorted (map entry_index (takeWhile is_index_entry (Object_entries ?b)))"
    unfolding Object_entries_index_run by (rule sorted_sort_key)
  show "dropWhile is_index_entry (Object_entries ?b) = filter (\<lambda>e. \<not> is_index_entry e) ?b"
    by (rule Object_entries_rest)
  show "Object_entries ?b = ?b" if "\<forall>e \<in> set ?b. array_index (fst e) = None"
    using that by (rule Object_entries_no_index)
qed

theorem breakdown_in_order_witness:
  "list_all (\<lambda>e. \<bar>snd e\<bar> \<le> 9007199254740991) [(lit ''b'', 1::int), (lit ''10'', 7), (lit ''2'', 5)]
   \<and> texts (BreakdownCard
            (example_response\<lparr>score := (score example_response)
               \<lparr>breakdown := [(lit ''b'', 1), (lit ''10'', 7), (lit ''2'', 5)]\<rparr>\<rparr>))
     = [lit ''Breakdown (MVP)'', lit ''2: 5 pts'', lit ''10: 7 pts'', lit ''b: 1 pts'']
   \<and> list_all (\<lambda>e. \<bar>snd e\<bar> \<le> 9007199254740991) (breakdown (score example_response))
   \<and> list_all (\<lambda>e. array_index (fst e) = None) (breakdown (score example_response))
   \<and> texts (BreakdownCard example_response) =
       [lit ''Breakdown (MVP)'', lit ''price: 30 pts'', lit ''safety: 50 pts'']"
proof -
  let ?b = "[(lit ''b'', 1::int), (lit ''10'', 7), (lit ''2'', 5)]"
  let ?d = "example_response\<lparr>score := (score example_response)\<lparr>breakdown := ?b\<rparr>\<rparr>"
  have line: "(\<lambda>(k, v). k @ lit '': '' @ Number_toString v @ lit '' pts'') = breakdown_line"
    by (rule ext) (simp add: breakdown_line_def)
  have b1: "\<forall>e \<in> set (breakdown (score ?d)). \<bar>snd e\<bar> \<le> 9007199254740991"
    by simp
  have b2: "\<forall>e \<in> set (breakdown (score example_response)). \<bar>snd e\<bar> \<le> 9007199254740991"
    by (simp add: example_breakdown)
  have n2: "\<forall>e \<in> set (breakdown (score example_response)). array_index (fst e) = None"
    by (simp add: example_breakdown array_index_examples)
  have oe: "Object_entries ?b = [(lit ''2'', 5), (lit ''10'', 7), (lit ''b'', 1)]"
    by (simp add: Object_entries_def is_index_entry_def entry_index_def array_index_examples)
  from breakdown_in_order [OF b1, THEN conjunct2, THEN conjunct1]
  have "texts (BreakdownCard ?d) = lit ''Breakdown (MVP)'' # map breakdown_line (Object_entries ?b)"
    unfolding line by simp
  then have 1: "texts (BreakdownCard ?d)
      = [lit ''Breakdown (MVP)'', lit ''2: 5 pts'', lit ''10: 7 pts'', lit ''b: 1 pts'']"
    by (simp add: oe breakdown_line_examples)
  note c = breakdown_in_order [OF b2]
  from c n2 have same: "Object_entries (breakdown (score example_response))
      = breakdown (score example_response)"
    by blast
  from c [THEN conjunct2, THEN conjunct1]
  have "texts (BreakdownCard example_response)
      = lit ''Breakdown (MVP)'' # map breakdown_line (breakdown (score example_response))"
    unfolding line same .
  then have 2: "texts (BreakdownCard example_response) =
       [lit ''Breakdown (MVP)'', lit ''price: 30 pts'', lit ''safety: 50 pts'']"
    by (simp add: example_breakdown breakdown_line_examples)
  from b1 have b1': "list_all (\<lambda>e. \<bar>snd e\<bar> \<le> 9007199254740991) ?b"
    by simp
  from b2 have b2': "list_all (\<lambda>e. \<bar>snd e\<bar> \<le> 9007199254740991) (breakdown (score example_response))"
    by (simp add: list_all_iff)
  from n2 have n2': "list_all (\<lambda>e. array_index (fst e) = None) (breakdown (score example_response))"
    by (simp add: list_all_iff)
  from b1' 1 b2' n2' 2 show ?thesis
    by blast
qed

lemma txt_radar_title_nonempty: "txt_radar_title \<noteq> []"
  by (simp add: txt_radar_title_def lit_def)

text \<open>
  C8: for a response with an empty radar, the radar card holds the message
  "Nenhum item relevante encontrado." and nothing else below its title; it is not the
  card with an empty list container.
\<close>

theorem empty_radar_placeholder:
  assumes "radar d = []"
  shows "RadarCard d = Card txt_radar_title [El ''div'' [] [Txt txt_nenhum_item]]
         \<and> texts (RadarCard d) = [txt_radar_title, txt_nenhum_item]
         \<and> RadarCard d \<noteq> Card txt_radar_title [El ''div'' [] []]"
proof -
  have tree: "RadarCard d = Card txt_radar_title [El ''div'' [] [Txt txt_nenhum_item]]"
    using assms by (simp add: RadarCard_def)
  then have "texts (RadarCard d) = [txt_radar_title, txt_nenhum_item]"
    by (simp add: texts_Card [OF txt_radar_title_nonempty])
  moreover have "RadarCard d \<noteq> Card txt_radar_title [El ''div'' [] []]"
    unfolding tree by (simp add: Card_def)
  ultimately show ?thesis
    using tree by blast
qed

theorem empty_radar_placeholder_witness:
  "radar example_response = []
   \<and> texts (RadarCard example_response) =
       [txt_radar_title, lit ''Nenhum item relevante encontrado.'']"
proof -
  have h: "radar example_response = []"
    by (simp add: example_response_def)
  from empty_radar_placeholder [OF h, THEN conjunct2, THEN conjunct1] h show ?thesis
    by (simp add: txt_nenhum_item_def)
qed

text \<open>
  C6, as stated: a radar item without date and source would show the dash for each. It
  shows no dash at all: the two elements are left out.
\<close>

theorem radar_item_missing_date_counterexample:
  "\<not> list_ex (\<lambda>t. js_includes t dash)
       (texts (RadarItem \<lparr>impact = Positive, title = lit ''a'', date = None,
                          why_it_matters = lit ''b'', source = None\<rparr>))"
  by (simp add: RadarItem_def jsx_text_def impact_glyph_def dash_def lit_def)

lemma PlaceScoreStat_None:
  "PlaceScoreStat None =
     El ''div'' []
       [El ''span'' [] [Txt (lit ''Qualidade do lugar:'')], Txt (lit '' ''),
        El ''span'' [] [Txt dash], El ''span'' [] [Txt (lit '' / 100'')]]"
  by (simp add: PlaceScoreStat_def number_or_dash_def jsx_text_def dash_def)

lemma ConfidenceStat_None:
  "ConfidenceStat None =
     El ''div'' []
       [El ''span'' [] [Txt (lit ''Confian'' @ [0xE7] @ lit ''a:'')], Txt (lit '' ''),
        El ''span'' [] [Txt dash], El ''span'' [] [Txt (lit '' / 100'')], Txt (lit '' ''),
        El ''span'' [(''color'', gray)] [Txt (lit ''(''), Txt dash, Txt (lit '')'')]]"
  by (simp add: ConfidenceStat_def confidenceInfo_def number_or_dash_def jsx_text_def dash_def)

text \<open>
  C6, amended: in the score header of any response, an absent \<open>place_score\<close> renders the
  dash, whatever the confidence is, and an absent \<open>confidence\<close> renders the dash, whatever
  the place score is (the confidence tier shows the dash as well, in gray, and no progress
  bar is drawn); a radar item whose \<open>date\<close> is absent renders no date element, and one
  whose \<open>source\<close> is absent renders no source element.
\<close>

theorem optional_fields_rendering:
  "(place_score (score d) = None \<longrightarrow>
      ScoreStats d =
        El ''div'' []
          [El ''div'' []
             ([El ''div'' []
                 [El ''div'' []
                    [El ''span'' [] [Txt (lit ''Qualidade do lugar:'')], Txt (lit '' ''),
                     El ''span'' [] [Txt dash], El ''span'' [] [Txt (lit '' / 100'')]],
                  ConfidenceStat (confidence (score d))]] @
              (case confidence (score d) of Some c \<Rightarrow> [ProgressBar c] | None \<Rightarrow> [])),
           El ''div'' [] (jsx_text (summary d))])
   \<and> (confidence (score d) = None \<longrightarrow>
      ScoreStats d =
        El ''div'' []
          [El ''div'' []
             [El ''div'' []
                [PlaceScoreStat (place_score (score d)),
                 El ''div'' []
                   [El ''span'' [] [Txt (lit ''Confian'' @ [0xE7] @ lit ''a:'')], Txt (lit '' ''),
                    El ''span'' [] [Txt dash], El ''span'' [] [Txt (lit '' / 100'')],
                    Txt (lit '' ''),
                    El ''span'' [(''color'', gray)] [Txt (lit ''(''), Txt dash, Txt (lit '')'')]]]],
           El ''div'' [] (jsx_text (summary d))])
   \<and> (date n = None \<longrightarrow>
        RadarItem n =
          El ''div'' []
            ([El ''div'' []
                [El ''div'' [] ([Txt (impact_glyph (impact n)), Txt (lit '' '')] @ jsx_text (title n))],
              El ''div'' [] (jsx_text (why_it_matters n))] @
             (case source n of
                None \<Rightarrow> []
              | Some src \<Rightarrow>
                  if src = [] then []
                  else [El ''div'' [] ([Txt (lit ''Fonte: '')] @ jsx_text src)])))
   \<and> (source n = None \<longrightarrow>
        RadarItem n =
          El ''div'' []
            [El ''div'' []
               ([El ''div'' [] ([Txt (impact_glyph (impact n)), Txt (lit '' '')] @ jsx_text (title n))] @
                (case date n of
                   None \<Rightarrow> []
                 | Some dt \<Rightarrow> if dt = [] then [] else [El ''div'' [] (jsx_text dt)])),
             El ''div'' [] (jsx_text (why_it_matters n))])"
proof (intro conjI impI)
  assume p: "place_score (score d) = None"
  show "ScoreStats d =
        El ''div'' []
          [El ''div'' []
             ([El ''div'' []
                 [El ''div'' []
                    [El ''span'' [] [Txt (lit ''Qualidade do lugar:'')], Txt (lit '' ''),
                     El ''span'' [] [Txt dash], El ''span'' [] [Txt (lit '' / 100'')]],
                  ConfidenceStat (confidence (score d))]] @
              (case confidence (score d) of Some c \<Rightarrow> [ProgressBar c] | None \<Rightarrow> [])),
           El ''div'' [] (jsx_text (summary d))]"
    unfolding PlaceScoreStat_None [symmetric] using p by (simp add: ScoreStats_def Let_def)
next
  assume c: "confidence (score d) = None"
  show "ScoreStats d =
        El ''div'' []
          [El ''div'' []
             [El ''div'' []
                [PlaceScoreStat (place_score (score d)),
                 El ''div'' []
                   [El ''span'' [] [Txt (lit ''Confian'' @ [0xE7] @ lit ''a:'')], Txt (lit '' ''),
                    El ''span'' [] [Txt dash], El ''span'' [] [Txt (lit '' / 100'')],
                    Txt (lit '' ''),
                    El ''span'' [(''color'', gray)] [Txt (lit ''(''), Txt dash, Txt (lit '')'')]]]],
           El ''div'' [] (jsx_text (summary d))]"
    unfolding ConfidenceStat_None [symmetric] using c by (simp add: ScoreStats_def Let_def)
next
  assume "date n = None"
  then show "RadarItem n =
          El ''div'' []
            ([El ''div'' []
                [El ''div'' [] ([Txt (impact_glyph (impact n)), Txt (lit '' '')] @ jsx_text (title n))],
              El ''div'' [] (jsx_text (why_it_matters n))] @
             (case source n of
                None \<Rightarrow> []
              | Some src \<Rightarrow>
                  if src = [] then []
                  else [El ''div'' [] ([Txt (lit ''Fonte: '')] @ jsx_text src)]))"
    by (simp add: RadarItem_def)
next
  assume "source n = None"
  then show "RadarItem n =
          El ''div'' []
            [El ''div'' []
               ([El ''div'' [] ([Txt (impact_glyph (impact n)), Txt (lit '' '')] @ jsx_text (title n))] @
                (case date n of
                   None \<Rightarrow> []
                 | Some dt \<Rightarrow> if dt = [] then [] else [El ''div'' [] (jsx_text dt)])),
             El ''div'' [] (jsx_text (why_it_matters n))]"
    by (simp add: RadarItem_def)
qed

theorem optional_fields_rendering_witness:
  "place_score (score (example_response\<lparr>score := (score example_response)\<lparr>confidence := Some 60\<rparr>\<rparr>))
     = None
   \<and> texts (ScoreStats (example_response\<lparr>score := (score example_response)\<lparr>confidence := Some 60\<rparr>\<rparr>)) =
       [lit ''Qualidade do lugar:'', lit '' '', dash, lit '' / 100'',
        lit ''Confian'' @ [0xE7] @ lit ''a:'', lit '' '', lit ''60'', lit '' / 100'', lit '' '',
        lit ''('', lit ''M'' @ [0xE9] @ lit ''dia'', lit '')'', lit ''ok'']
   \<and> confidence (score (example_response\<lparr>score := (score example_response)\<lparr>place_score := Some 70\<rparr>\<rparr>))
     = None
   \<and> texts (ScoreStats (example_response\<lparr>score := (score example_response)\<lparr>place_score := Some 70\<rparr>\<rparr>)) =
       [lit ''Qualidade do lugar:'', lit '' '', lit ''70'', lit '' / 100'',
        lit ''Confian'' @ [0xE7] @ lit ''a:'', lit '' '', dash, lit '' / 100'', lit '' '',
        lit ''('', dash, lit '')'', lit ''ok'']
   \<and> texts (RadarItem \<lparr>impact = Risk, title = lit ''a'', date = None,
                        why_it_matters = lit ''b'', source = Some (lit ''g1'')\<rparr>)
       = [[0xD83D, 0xDD34], lit '' '', lit ''a'', lit ''b'', lit ''Fonte: '', lit ''g1'']
   \<and> texts (RadarItem \<lparr>impact = Risk, title = lit ''a'', date = Some (lit ''2025''),
                        why_it_matters = lit ''b'', source = None\<rparr>)
       = [[0xD83D, 0xDD34], lit '' '', lit ''a'', lit ''2025'', lit ''b'']"
proof -
  let ?d1 = "example_response\<lparr>score := (score example_response)\<lparr>confidence := Some 60\<rparr>\<rparr>"
  let ?d2 = "example_response\<lparr>score := (score example_response)\<lparr>place_score := Some 70\<rparr>\<rparr>"
  let ?n = "\<lparr>impact = Risk, title = lit ''a'', date = None, why_it_matters = lit ''b'',
             source = Some (lit ''g1'')\<rparr>"
  let ?m = "\<lparr>impact = Risk, title = lit ''a'', date = Some (lit ''2025''),
             why_it_matters = lit ''b'', source = None\<rparr>"
  have p1: "place_score (score ?d1) = None"
    by (simp add: example_response_def)
  have c1: "confidence (score ?d1) = Some 60"
    by simp
  have c2: "confidence (score ?d2) = None"
    by (simp add: example_response_def)
  have p2: "place_score (score ?d2) = Some 70"
    by simp
  have s: "summary ?d1 = lit ''ok''" "summary ?d2 = lit ''ok''"
    by (simp_all add: example_response_def)
  have l: "lit ''ok'' \<noteq> []" "lit ''a'' \<noteq> []" "lit ''b'' \<noteq> []" "lit ''g1'' \<noteq> []"
    "lit ''2025'' \<noteq> []"
    by (simp_all add: lit_def)
  have n60: "Number_toString 60 = lit ''60''" and n70: "Number_toString 70 = lit ''70''"
    by (simp_all add: Number_toString_def digits.simps lit_def)
  have conf60: "texts (ConfidenceStat (Some 60)) =
      [lit ''Confian'' @ [0xE7] @ lit ''a:'', lit '' '', lit ''60'', lit '' / 100'', lit '' '',
       lit ''('', lit ''M'' @ [0xE9] @ lit ''dia'', lit '')'']"
    by (simp add: ConfidenceStat_def confidenceInfo_def number_or_dash_def jsx_text_def n60)
       (simp add: lit_def)
  have place70: "texts (PlaceScoreStat (Some 70)) =
      [lit ''Qualidade do lugar:'', lit '' '', lit ''70'', lit '' / 100'']"
    by (simp add: PlaceScoreStat_def number_or_dash_def jsx_text_def n70) (simp add: lit_def)
  note t1 = optional_fields_rendering [of ?d1 ?n, THEN conjunct1, rule_format, OF p1]
  note t2 = optional_fields_rendering [of ?d2 ?n, THEN conjunct2, THEN conjunct1, rule_format, OF c2]
  have dn: "date ?n = None"
    by simp
  note t3 = optional_fields_rendering [of ?d1 ?n, THEN conjunct2, THEN conjunct2, THEN conjunct1,
      rule_format, OF dn]
  have 1: "texts (ScoreStats ?d1) =
       [lit ''Qualidade do lugar:'', lit '' '', dash, lit '' / 100'',
        lit ''Confian'' @ [0xE7] @ lit ''a:'', lit '' '', lit ''60'', lit '' / 100'', lit '' '',
        lit ''('', lit ''M'' @ [0xE9] @ lit ''dia'', lit '')'', lit ''ok'']"
    unfolding t1 by (simp add: c1 s l conf60 jsx_text_def ProgressBar_def)
  have 2: "texts (ScoreStats ?d2) =
       [lit ''Qualidade do lugar:'', lit '' '', lit ''70'', lit '' / 100'',
        lit ''Confian'' @ [0xE7] @ lit ''a:'', lit '' '', dash, lit '' / 100'', lit '' '',
        lit ''('', dash, lit '')'', lit ''ok'']"
    unfolding t2 by (simp add: p2 s l place70 jsx_text_def)
  have sm: "source ?m = None"
    by simp
  note t4 = optional_fields_rendering [of ?d1 ?m, THEN conjunct2, THEN conjunct2, THEN conjunct2,
      rule_format, OF sm]
  have 3: "texts (RadarItem ?n) =
      [[0xD83D, 0xDD34], lit '' '', lit ''a'', lit ''b'', lit ''Fonte: '', lit ''g1'']"
    unfolding t3 by (simp add: l jsx_text_def impact_glyph_def)
  have 4: "texts (RadarItem ?m) = [[0xD83D, 0xDD34], lit '' '', lit ''a'', lit ''2025'', lit ''b'']"
    unfolding t4 by (simp add: l jsx_text_def impact_glyph_def)
  from p1 1 c2 2 3 4 show ?thesis
    by blast
qed

end
